theory Spec2Isabelle
  imports Complex_Main
begin

section \<open>The record schema of \<open>src/types/schema.d.ts\<close>\<close>

text \<open>
  The source file declares five TypeScript interfaces and one type alias. It has no
  functions: what it fixes is which objects are assignable to each interface. The model
  is therefore the declarations themselves, as data, together with the structural
  assignability check that TypeScript applies to them: every declared property is checked
  against its declaration, and an interface whose properties are all optional (a weak type)
  refuses a non-empty object that shares no property with it.
\<close>

subsection \<open>Values\<close>

text \<open>
  The primitive JavaScript values that can sit in a property. A \<open>number\<close> is carried as a
  real; only its being a number matters to the declarations. An object is a finite map from
  property names to values. Reading a property that is absent and reading one that holds
  \<open>undefined\<close> both give \<open>undefined\<close>, so both are \<open>None\<close> here.
\<close>

datatype jsvalue =
    JNull
  | JBool bool
  | JNum real
  | JStr string

type_synonym jsobject = "string \<rightharpoonup> jsvalue"

subsection \<open>Declared types\<close>

text \<open>
  The types that occur on the right of a property declaration in the source: \<open>number\<close>,
  \<open>string\<close>, and a union of string literal types.
\<close>

datatype tstype =
    TNumber
  | TString
  | TLiterals "string list"

text \<open>Line 1 of the source: \<open>type DateTime = string;\<close>\<close>

definition DateTime :: tstype where
  "DateTime = TString"

text \<open>
  A property declaration: its name, whether it carries the \<open>?\<close> marker, and its type.
\<close>

datatype property = Property (pname: string) (optional: bool) (ptype: tstype)

text \<open>\<open>name: T\<close> and \<open>name?: T\<close>.\<close>

definition req :: "string \<Rightarrow> tstype \<Rightarrow> property" where
  "req n t = Property n False t"

definition opt :: "string \<Rightarrow> tstype \<Rightarrow> property" where
  "opt n t = Property n True t"

subsection \<open>The five interfaces\<close>

datatype kind =
    HttpRequest
  | HttpResponse
  | HttpRedirect
  | JavascriptOperation
  | JavascriptCookieChange

text \<open>The property declarations of each interface, in source order.\<close>

fun properties :: "kind \<Rightarrow> property list" where
  "properties HttpRequest =
    [ opt ''id'' TNumber,
      opt ''crawl_id'' TNumber,
      opt ''visit_id'' TNumber,
      req ''url'' TString,
      opt ''top_level_url'' TString,
      req ''method'' TString,
      req ''referrer'' TString,
      req ''headers'' TString,
      req ''channel_id'' TString,
      opt ''is_XHR'' TNumber,
      opt ''is_frame_load'' TNumber,
      opt ''is_full_page'' TNumber,
      opt ''is_third_party_channel'' TNumber,
      opt ''is_third_party_to_top_window'' TNumber,
      opt ''triggering_origin'' TString,
      opt ''loading_origin'' TString,
      opt ''loading_href'' TString,
      opt ''req_call_stack'' TString,
      req ''resource_type'' TString,
      opt ''post_body'' TString,
      req ''time_stamp'' TString ]"
| "properties HttpResponse =
    [ opt ''id'' TNumber,
      opt ''crawl_id'' TNumber,
      opt ''visit_id'' TNumber,
      req ''url'' TString,
      req ''method'' TString,
      req ''referrer'' TString,
      req ''response_status'' TNumber,
      req ''response_status_text'' TString,
      req ''is_cached'' TNumber,
      req ''headers'' TString,
      req ''channel_id'' TString,
      req ''location'' TString,
      req ''time_stamp'' TString,
      opt ''content_hash'' TString ]"
| "properties HttpRedirect =
    [ opt ''id'' TNumber,
      opt ''crawl_id'' TNumber,
      opt ''visit_id'' TNumber,
      opt ''old_channel_id'' TString,
      opt ''new_channel_id'' TString,
      req ''is_temporary'' TNumber,
      req ''is_permanent'' TNumber,
      req ''is_internal'' TNumber,
      req ''is_sts_upgrade'' TNumber,
      req ''time_stamp'' TString ]"
| "properties JavascriptOperation =
    [ opt ''id'' TNumber,
      opt ''crawl_id'' TNumber,
      opt ''visit_id'' TNumber,
      opt ''script_url'' TString,
      opt ''script_line'' TString,
      opt ''script_col'' TString,
      opt ''func_name'' TString,
      opt ''script_loc_eval'' TString,
      opt ''document_url'' TString,
      opt ''top_level_url'' TString,
      opt ''call_stack'' TString,
      opt ''symbol'' TString,
      opt ''operation'' TString,
      opt ''value'' TString,
      opt ''arguments'' TString,
      req ''time_stamp'' TString ]"
| "properties JavascriptCookieChange =
    [ opt ''id'' TNumber,
      opt ''crawl_id'' TNumber,
      opt ''visit_id'' TNumber,
      opt ''change'' (TLiterals [''deleted'', ''added'', ''changed'']),
      opt ''creationTime'' DateTime,
      opt ''expiry'' DateTime,
      opt ''is_http_only'' TNumber,
      opt ''is_host_only'' TNumber,
      opt ''is_session'' TNumber,
      opt ''last_accessed'' DateTime,
      opt ''raw_host'' TString,
      opt ''expires'' TNumber,
      opt ''host'' TString,
      opt ''is_domain'' TNumber,
      opt ''is_secure'' TNumber,
      opt ''name'' TString,
      opt ''path'' TString,
      opt ''policy'' TNumber,
      opt ''status'' TNumber,
      opt ''value'' TString,
      opt ''same_site'' TString,
      opt ''first_party_domain'' TString ]"

subsection \<open>Assignability\<close>

text \<open>
  A value inhabits a declared type: a number inhabits \<open>number\<close>, a string inhabits
  \<open>string\<close>, and a string inhabits a union of literals when it is one of them.
\<close>

fun has_type :: "jsvalue \<Rightarrow> tstype \<Rightarrow> bool" where
  "has_type (JNum n) TNumber = True"
| "has_type (JStr s) TString = True"
| "has_type (JStr s) (TLiterals ls) = (s \<in> set ls)"
| "has_type _ _ = False"

text \<open>
  An object satisfies one declaration when the property is there with a value of the
  declared type, or is not there and the declaration is optional.
\<close>

fun property_ok :: "jsobject \<Rightarrow> property \<Rightarrow> bool" where
  "property_ok v (Property n is_opt t) =
     (case v n of None \<Rightarrow> is_opt | Some x \<Rightarrow> has_type x t)"

text \<open>
  An object satisfies a list of declarations when it satisfies every one of them.
  Properties that are not declared are not looked at here (structural typing).
\<close>

fun satisfies :: "jsobject \<Rightarrow> property list \<Rightarrow> bool" where
  "satisfies v [] = True"
| "satisfies v (p # ps) = (property_ok v p \<and> satisfies v ps)"

text \<open>
  An interface is a weak type when it declares at least one property and all its
  declarations are optional.
\<close>

fun is_weak :: "property list \<Rightarrow> bool" where
  "is_weak [] = False"
| "is_weak (p # ps) = list_all optional (p # ps)"

text \<open>The object holds a property under a name that the interface declares.\<close>

fun has_common_property :: "jsobject \<Rightarrow> property list \<Rightarrow> bool" where
  "has_common_property v [] = False"
| "has_common_property v (p # ps) =
     (case v (pname p) of None \<Rightarrow> has_common_property v ps | Some x \<Rightarrow> True)"

text \<open>
  The weak type check: an object that has properties, none of them declared by the weak
  interface, is not assignable to it. The empty object is exempt, and an interface that has
  a required property is not concerned.
\<close>

definition weak_type_ok :: "jsobject \<Rightarrow> property list \<Rightarrow> bool" where
  "weak_type_ok v ps =
     (if is_weak ps then v = Map.empty \<or> has_common_property v ps else True)"

text \<open>
  Conformance of a value to an interface is both checks together. This is the check on a
  value that reaches the interface through a variable or a parameter. That an object literal
  written directly at the assignment may not name undeclared properties is a rule about
  that expression, not about the value, and is not part of \<open>conforms\<close>.
\<close>

definition conforms :: "kind \<Rightarrow> jsobject \<Rightarrow> bool" where
  "conforms k v = (satisfies v (properties k) \<and> weak_type_ok v (properties k))"

text \<open>The names of the declarations of an interface that carry no \<open>?\<close> marker.\<close>

definition required_fields :: "kind \<Rightarrow> string list" where
  "required_fields k = map pname (filter (\<lambda>p. \<not> optional p) (properties k))"

definition optional_fields :: "kind \<Rightarrow> string list" where
  "optional_fields k = map pname (filter optional (properties k))"

section \<open>Properties of the schema\<close>

subsection \<open>Auxiliary facts\<close>

lemmas schema_defs = conforms_def weak_type_ok_def req_def opt_def DateTime_def

lemma conforms_satisfies: "conforms k v \<Longrightarrow> satisfies v (properties k)"
  by (simp add: conforms_def)

lemma has_common_property_iff:
  "has_common_property v ps = (\<exists>n \<in> set (map pname ps). v n \<noteq> None)"
  by (induction ps) (auto split: option.splits)



lemma has_type_number: "has_type x TNumber \<Longrightarrow> \<exists>n. x = JNum n"
  by (cases x) simp_all

lemma has_type_string: "has_type x TString \<Longrightarrow> \<exists>s. x = JStr s"
  by (cases x) simp_all

lemma has_type_literals:
  "has_type x (TLiterals ls) \<Longrightarrow> \<exists>s. x = JStr s \<and> s \<in> set ls"
  by (cases x) simp_all

lemma satisfies_member:
  "satisfies v ps \<Longrightarrow> p \<in> set ps \<Longrightarrow> property_ok v p"
  by (induction ps) auto

lemma satisfies_typed:
  assumes "satisfies v ps" and "p \<in> set ps" and "v (pname p) = Some x"
  shows "has_type x (ptype p)"
proof -
  have "property_ok v p"
    using satisfies_member assms(1,2) by blast
  then show ?thesis
    using assms(3) by (cases p) simp
qed

lemma satisfies_needs_required:
  assumes "satisfies v ps" and "p \<in> set ps" and "\<not> optional p"
  shows "v (pname p) \<noteq> None"
proof -
  have "property_ok v p"
    using satisfies_member assms(1,2) by blast
  then show ?thesis
    using assms(3) by (cases p) (auto split: option.splits)
qed

lemma required_field_absent:
  assumes "n \<in> set (required_fields k)" and "v n = None"
  shows "\<not> conforms k v"
proof
  assume c: "conforms k v"
  from assms(1) obtain p
    where p: "p \<in> set (properties k)" "\<not> optional p" "pname p = n"
    by (auto simp: required_fields_def)
  have "v (pname p) \<noteq> None"
    using satisfies_needs_required [OF conforms_satisfies [OF c] p(1,2)] .
  then show False
    using p(3) assms(2) by simp
qed


text \<open>Storing a value of the declared type under a name keeps an object assignable.\<close>

lemma satisfies_update:
  assumes "satisfies v ps"
    and "list_all (\<lambda>p. pname p = f \<longrightarrow> has_type y (ptype p)) ps"
  shows "satisfies (v(f \<mapsto> y)) ps"
  using assms
proof (induction ps)
  case Nil
  then show ?case by simp
next
  case (Cons p ps)
  then show ?case by (cases p) (auto split: option.splits)
qed

lemma time_stamp_declared:
  "k \<noteq> JavascriptCookieChange \<Longrightarrow> req ''time_stamp'' TString \<in> set (properties k)"
  by (cases k) simp_all


lemma flags_declared_number:
  "list_all (\<lambda>p. pname p \<in> {''is_XHR'', ''is_frame_load'', ''is_full_page'',
       ''is_third_party_channel'', ''is_third_party_to_top_window'', ''is_cached'',
       ''is_temporary'', ''is_permanent'', ''is_internal'', ''is_sts_upgrade'',
       ''is_http_only'', ''is_host_only'', ''is_session'', ''is_domain'', ''is_secure''}
     \<longrightarrow> ptype p = TNumber) (properties k)"
  by (cases k) (simp_all add: schema_defs)

lemma required_fields_HttpRedirect:
  "required_fields HttpRedirect =
     [''is_temporary'', ''is_permanent'', ''is_internal'', ''is_sts_upgrade'', ''time_stamp'']"
  by (simp add: required_fields_def schema_defs)

subsection \<open>Timestamps\<close>

text \<open>
  C1 (as the code has it). \<open>HttpRequest\<close>, \<open>HttpResponse\<close>, \<open>HttpRedirect\<close> and
  \<open>JavascriptOperation\<close> declare \<open>time_stamp: string\<close> without the \<open>?\<close> marker, so every
  conforming value of these four kinds has a \<open>time_stamp\<close> property, and it is a string.
  \<open>JavascriptCookieChange\<close> declares no \<open>time_stamp\<close> property and is left out.
\<close>

theorem time_stamp_present:
  "k \<noteq> JavascriptCookieChange \<Longrightarrow> conforms k v \<Longrightarrow>
     \<exists>s. v ''time_stamp'' = Some (JStr s)"
proof -
  assume k: "k \<noteq> JavascriptCookieChange" and c: "conforms k v"
  have sat: "satisfies v (properties k)"
    using c by (simp add: conforms_def)
  have mem: "req ''time_stamp'' TString \<in> set (properties k)"
    using k by (rule time_stamp_declared)
  have "v (pname (req ''time_stamp'' TString)) \<noteq> None"
    using satisfies_needs_required [OF sat mem] by (simp add: req_def)
  then obtain x where x: "v ''time_stamp'' = Some x"
    by (auto simp: req_def)
  have "has_type x (ptype (req ''time_stamp'' TString))"
    using satisfies_typed [OF sat mem] x by (simp add: req_def)
  then have "has_type x TString"
    by (simp add: req_def)
  then show ?thesis
    using x has_type_string by blast
qed

theorem time_stamp_present_witness:
  "HttpRedirect \<noteq> JavascriptCookieChange
   \<and> conforms HttpRedirect
       [''is_temporary'' \<mapsto> JNum 1, ''is_permanent'' \<mapsto> JNum 0, ''is_internal'' \<mapsto> JNum 0,
        ''is_sts_upgrade'' \<mapsto> JNum 0, ''time_stamp'' \<mapsto> JStr ''2024-01-01T00:00:00Z'']
   \<and> (\<exists>s. [''is_temporary'' \<mapsto> JNum 1, ''is_permanent'' \<mapsto> JNum 0, ''is_internal'' \<mapsto> JNum 0,
        ''is_sts_upgrade'' \<mapsto> JNum 0, ''time_stamp'' \<mapsto> JStr ''2024-01-01T00:00:00Z'']
         ''time_stamp'' = Some (JStr s))"
proof -
  let ?v = "[''is_temporary'' \<mapsto> JNum 1, ''is_permanent'' \<mapsto> JNum 0,
             ''is_internal'' \<mapsto> JNum 0, ''is_sts_upgrade'' \<mapsto> JNum 0,
             ''time_stamp'' \<mapsto> JStr ''2024-01-01T00:00:00Z'']"
  have k: "HttpRedirect \<noteq> JavascriptCookieChange"
    by simp
  have c: "conforms HttpRedirect ?v"
    by (simp add: schema_defs)
  from time_stamp_present [OF k c] k c show ?thesis
    by blast
qed

text \<open>
  C1 (as stated) fails on \<open>JavascriptCookieChange\<close>: the object
  \<open>{change: "added", name: "sid"}\<close> conforms to it and has no \<open>time_stamp\<close>.
\<close>

theorem cookie_change_without_time_stamp:
  "conforms JavascriptCookieChange [''change'' \<mapsto> JStr ''added'', ''name'' \<mapsto> JStr ''sid'']
   \<and> [''change'' \<mapsto> JStr ''added'', ''name'' \<mapsto> JStr ''sid''] ''time_stamp'' = None"
  by (simp add: schema_defs)

subsection \<open>Numeric flags\<close>

text \<open>
  C2 (as the code has it). Each of the fifteen flag properties is declared with the type
  \<open>number\<close> wherever an interface declares it. So in a conforming record a flag that is
  present holds a number, and storing any number at all under a declared flag keeps the
  record conforming: the type does not single out 0 and 1.
\<close>

theorem flag_holds_any_number:
  "f \<in> {''is_XHR'', ''is_frame_load'', ''is_full_page'',
       ''is_third_party_channel'', ''is_third_party_to_top_window'', ''is_cached'',
       ''is_temporary'', ''is_permanent'', ''is_internal'', ''is_sts_upgrade'',
       ''is_http_only'', ''is_host_only'', ''is_session'', ''is_domain'', ''is_secure''} \<Longrightarrow>
   f \<in> set (map pname (properties k)) \<Longrightarrow> conforms k v \<Longrightarrow>
     (\<forall>x. v f = Some x \<longrightarrow> (\<exists>n. x = JNum n)) \<and> (\<forall>n. conforms k (v(f \<mapsto> JNum n)))"
proof -
  assume f: "f \<in> {''is_XHR'', ''is_frame_load'', ''is_full_page'',
       ''is_third_party_channel'', ''is_third_party_to_top_window'', ''is_cached'',
       ''is_temporary'', ''is_permanent'', ''is_internal'', ''is_sts_upgrade'',
       ''is_http_only'', ''is_host_only'', ''is_session'', ''is_domain'', ''is_secure''}"
    and d: "f \<in> set (map pname (properties k))"
    and c: "conforms k v"
  have sat: "satisfies v (properties k)"
    using c by (simp add: conforms_def)
  have num: "ptype p = TNumber" if "p \<in> set (properties k)" and "pname p = f" for p
  proof -
    from f that(2) have "pname p \<in> {''is_XHR'', ''is_frame_load'', ''is_full_page'',
       ''is_third_party_channel'', ''is_third_party_to_top_window'', ''is_cached'',
       ''is_temporary'', ''is_permanent'', ''is_internal'', ''is_sts_upgrade'',
       ''is_http_only'', ''is_host_only'', ''is_session'', ''is_domain'', ''is_secure''}"
      by blast
    then show ?thesis
      using flags_declared_number [of k] that(1) unfolding list_all_iff by blast
  qed
  from d obtain p where p: "p \<in> set (properties k)" "pname p = f"
    by auto
  have "\<exists>n. x = JNum n" if "v f = Some x" for x
  proof -
    have "has_type x (ptype p)"
      using satisfies_typed [OF sat p(1)] p(2) that by simp
    then show ?thesis
      using num [OF p] has_type_number by simp
  qed
  moreover have "conforms k (v(f \<mapsto> JNum n))" for n
  proof -
    have "list_all (\<lambda>p. pname p = f \<longrightarrow> has_type (JNum n) (ptype p)) (properties k)"
      using num by (simp add: list_all_iff)
    then have "satisfies (v(f \<mapsto> JNum n)) (properties k)"
      using satisfies_update [OF sat] by simp
    moreover have "has_common_property (v(f \<mapsto> JNum n)) (properties k)"
      unfolding has_common_property_iff using d by (intro bexI [of _ f]) simp_all
    ultimately show ?thesis
      by (simp add: conforms_def weak_type_ok_def)
  qed
  ultimately show ?thesis
    by blast
qed

theorem flag_holds_any_number_witness:
  "''is_secure'' \<in> {''is_XHR'', ''is_frame_load'', ''is_full_page'',
       ''is_third_party_channel'', ''is_third_party_to_top_window'', ''is_cached'',
       ''is_temporary'', ''is_permanent'', ''is_internal'', ''is_sts_upgrade'',
       ''is_http_only'', ''is_host_only'', ''is_session'', ''is_domain'', ''is_secure''}
   \<and> ''is_secure'' \<in> set (map pname (properties JavascriptCookieChange))
   \<and> conforms JavascriptCookieChange [''name'' \<mapsto> JStr ''sid'', ''is_secure'' \<mapsto> JNum 1]
   \<and> (\<exists>n. [''name'' \<mapsto> JStr ''sid'', ''is_secure'' \<mapsto> JNum 1] ''is_secure'' = Some (JNum n))
   \<and> conforms JavascriptCookieChange
        ([''name'' \<mapsto> JStr ''sid'', ''is_secure'' \<mapsto> JNum 1](''is_secure'' \<mapsto> JNum 7))"
proof -
  let ?v = "[''name'' \<mapsto> JStr ''sid'', ''is_secure'' \<mapsto> JNum 1]"
  have f: "''is_secure'' \<in> {''is_XHR'', ''is_frame_load'', ''is_full_page'',
       ''is_third_party_channel'', ''is_third_party_to_top_window'', ''is_cached'',
       ''is_temporary'', ''is_permanent'', ''is_internal'', ''is_sts_upgrade'',
       ''is_http_only'', ''is_host_only'', ''is_session'', ''is_domain'', ''is_secure''}"
    by simp
  have d: "''is_secure'' \<in> set (map pname (properties JavascriptCookieChange))"
    by (simp add: schema_defs)
  have c: "conforms JavascriptCookieChange ?v"
    by (simp add: schema_defs)
  have "conforms JavascriptCookieChange (?v(''is_secure'' \<mapsto> JNum 7))"
    using flag_holds_any_number [OF f d c] by blast
  moreover have "\<exists>n. ?v ''is_secure'' = Some (JNum n)"
    by simp
  ultimately show ?thesis
    using f d c by blast
qed

text \<open>
  C2 (as stated) fails: the \<open>HttpResponse\<close> of the specification's example with
  \<open>is_cached: 2\<close> conforms, and 2 is neither 0 nor 1.
\<close>

theorem flag_value_two_conforms:
  "conforms HttpResponse
     [''url'' \<mapsto> JStr ''https://example.com'', ''method'' \<mapsto> JStr ''GET'',
      ''referrer'' \<mapsto> JStr '''', ''response_status'' \<mapsto> JNum 200,
      ''response_status_text'' \<mapsto> JStr ''OK'', ''is_cached'' \<mapsto> JNum 2,
      ''headers'' \<mapsto> JStr ''{}'', ''channel_id'' \<mapsto> JStr ''abc123'',
      ''location'' \<mapsto> JStr '''', ''time_stamp'' \<mapsto> JStr ''2024-01-01T00:00:00Z'']
   \<and> JNum 2 \<noteq> JNum 0 \<and> JNum 2 \<noteq> JNum 1"
  by (simp add: schema_defs)

subsection \<open>The closed \<open>change\<close> tag\<close>

text \<open>
  C3. In a conforming \<open>JavascriptCookieChange\<close> a \<open>change\<close> property that is present is one
  of the strings \<open>"deleted"\<close>, \<open>"added"\<close>, \<open>"changed"\<close>; and an object whose \<open>change\<close> holds a
  string outside these three does not conform.
\<close>

theorem change_is_closed:
  "(conforms JavascriptCookieChange v \<longrightarrow> v ''change'' = Some x \<longrightarrow>
      x \<in> {JStr ''deleted'', JStr ''added'', JStr ''changed''})
   \<and> (w ''change'' = Some (JStr s) \<longrightarrow> s \<notin> {''deleted'', ''added'', ''changed''} \<longrightarrow>
      \<not> conforms JavascriptCookieChange w)"
proof -
  let ?p = "opt ''change'' (TLiterals [''deleted'', ''added'', ''changed''])"
  have mem: "?p \<in> set (properties JavascriptCookieChange)"
    by simp
  have typed: "\<exists>s. y = JStr s \<and> s \<in> {''deleted'', ''added'', ''changed''}"
    if "conforms JavascriptCookieChange u" and "u ''change'' = Some y" for u y
  proof -
    have "satisfies u (properties JavascriptCookieChange)"
      using that(1) by (simp add: conforms_def)
    from satisfies_typed [OF this mem] that(2)
    have "has_type y (TLiterals [''deleted'', ''added'', ''changed''])"
      by (simp add: opt_def)
    from has_type_literals [OF this] show ?thesis
      by simp
  qed
  have "x \<in> {JStr ''deleted'', JStr ''added'', JStr ''changed''}"
    if "conforms JavascriptCookieChange v" and "v ''change'' = Some x"
    using typed [OF that] by auto
  moreover have "\<not> conforms JavascriptCookieChange w"
    if "w ''change'' = Some (JStr s)" and "s \<notin> {''deleted'', ''added'', ''changed''}"
    using typed [of w "JStr s"] that by auto
  ultimately show ?thesis
    by blast
qed

theorem change_is_closed_witness:
  "conforms JavascriptCookieChange [''change'' \<mapsto> JStr ''deleted'']
   \<and> [''change'' \<mapsto> JStr ''deleted''] ''change'' = Some (JStr ''deleted'')
   \<and> JStr ''deleted'' \<in> {JStr ''deleted'', JStr ''added'', JStr ''changed''}
   \<and> [''change'' \<mapsto> JStr ''modified''] ''change'' = Some (JStr ''modified'')
   \<and> ''modified'' \<notin> {''deleted'', ''added'', ''changed''}
   \<and> \<not> conforms JavascriptCookieChange [''change'' \<mapsto> JStr ''modified'']"
proof -
  have c: "conforms JavascriptCookieChange [''change'' \<mapsto> JStr ''deleted'']"
    by (simp add: schema_defs)
  have l: "[''change'' \<mapsto> JStr ''modified''] ''change'' = Some (JStr ''modified'')"
    by simp
  have n: "''modified'' \<notin> {''deleted'', ''added'', ''changed''}"
    by simp
  from change_is_closed [of "[''change'' \<mapsto> JStr ''deleted'']" "JStr ''deleted''"
      "[''change'' \<mapsto> JStr ''modified'']" "''modified''"] c l n
  show ?thesis
    by simp
qed

subsection \<open>Required and optional properties\<close>

text \<open>
  C4. The declarations of \<open>HttpRequest\<close> without the \<open>?\<close> marker are exactly \<open>url\<close>,
  \<open>method\<close>, \<open>referrer\<close>, \<open>headers\<close>, \<open>channel_id\<close>, \<open>resource_type\<close> and \<open>time_stamp\<close>, all
  its other declarations are optional, and an object with just these seven properties,
  each holding a string, conforms to \<open>HttpRequest\<close>.
\<close>

theorem http_request_required_only:
  "required_fields HttpRequest =
     [''url'', ''method'', ''referrer'', ''headers'', ''channel_id'', ''resource_type'',
      ''time_stamp'']
   \<and> optional_fields HttpRequest =
     [''id'', ''crawl_id'', ''visit_id'', ''top_level_url'', ''is_XHR'', ''is_frame_load'',
      ''is_full_page'', ''is_third_party_channel'', ''is_third_party_to_top_window'',
      ''triggering_origin'', ''loading_origin'', ''loading_href'', ''req_call_stack'',
      ''post_body'']
   \<and> conforms HttpRequest
     [''url'' \<mapsto> JStr u, ''method'' \<mapsto> JStr m, ''referrer'' \<mapsto> JStr r,
      ''headers'' \<mapsto> JStr h, ''channel_id'' \<mapsto> JStr c, ''resource_type'' \<mapsto> JStr rt,
      ''time_stamp'' \<mapsto> JStr t]"
  by (simp add: required_fields_def optional_fields_def schema_defs)

text \<open>
  C5. For each of the five kinds, an object in which a required property of the kind is
  absent does not conform to it, whatever else the object holds.
\<close>

theorem missing_required_rejected:
  "f \<in> set (required_fields k) \<Longrightarrow> v f = None \<Longrightarrow> \<not> conforms k v"
  by (rule required_field_absent)

theorem missing_required_rejected_witness:
  "''response_status'' \<in> set (required_fields HttpResponse)
   \<and> [''url'' \<mapsto> JStr ''https://example.com'', ''method'' \<mapsto> JStr ''GET'',
       ''time_stamp'' \<mapsto> JStr ''2024-01-01T00:00:00Z''] ''response_status'' = None
   \<and> \<not> conforms HttpResponse
       [''url'' \<mapsto> JStr ''https://example.com'', ''method'' \<mapsto> JStr ''GET'',
        ''time_stamp'' \<mapsto> JStr ''2024-01-01T00:00:00Z'']"
proof -
  let ?v = "[''url'' \<mapsto> JStr ''https://example.com'', ''method'' \<mapsto> JStr ''GET'',
             ''time_stamp'' \<mapsto> JStr ''2024-01-01T00:00:00Z'']"
  have r: "''response_status'' \<in> set (required_fields HttpResponse)"
    by (simp add: required_fields_def schema_defs)
  have a: "?v ''response_status'' = None"
    by simp
  from missing_required_rejected [of "''response_status''" HttpResponse ?v, OF r a] r a
  show ?thesis
    by blast
qed

text \<open>
  C6. The \<open>HttpResponse\<close> example of the specification conforms to \<open>HttpResponse\<close>.
\<close>

theorem http_response_example_conforms:
  "conforms HttpResponse
     [''url'' \<mapsto> JStr ''https://example.com'', ''method'' \<mapsto> JStr ''GET'',
      ''referrer'' \<mapsto> JStr '''', ''response_status'' \<mapsto> JNum 200,
      ''response_status_text'' \<mapsto> JStr ''OK'', ''is_cached'' \<mapsto> JNum 0,
      ''headers'' \<mapsto> JStr ''{}'', ''channel_id'' \<mapsto> JStr ''abc123'',
      ''location'' \<mapsto> JStr '''', ''time_stamp'' \<mapsto> JStr ''2024-01-01T00:00:00Z'']"
  by (simp add: schema_defs)




text \<open>
  C9. \<open>JavascriptCookieChange\<close> has no required property, every one of its declarations is
  optional, and the empty object conforms to it.
\<close>

theorem cookie_change_all_optional:
  "required_fields JavascriptCookieChange = []
   \<and> optional_fields JavascriptCookieChange = map pname (properties JavascriptCookieChange)
   \<and> conforms JavascriptCookieChange Map.empty"
  by (simp add: required_fields_def optional_fields_def schema_defs)

text \<open>
  C10. In \<open>HttpRedirect\<close> the two channel identifiers are optional and the four flags are
  required: an object with the four flags (numbers) and \<open>time_stamp\<close> (a string) and no
  channel identifier conforms, and an object in which one of the four flags is absent does
  not.
\<close>

theorem http_redirect_shape:
  "optional_fields HttpRedirect =
     [''id'', ''crawl_id'', ''visit_id'', ''old_channel_id'', ''new_channel_id'']
   \<and> required_fields HttpRedirect =
     [''is_temporary'', ''is_permanent'', ''is_internal'', ''is_sts_upgrade'', ''time_stamp'']
   \<and> conforms HttpRedirect
     [''is_temporary'' \<mapsto> JNum a, ''is_permanent'' \<mapsto> JNum b, ''is_internal'' \<mapsto> JNum c,
      ''is_sts_upgrade'' \<mapsto> JNum d, ''time_stamp'' \<mapsto> JStr t]
   \<and> (f \<in> {''is_temporary'', ''is_permanent'', ''is_internal'', ''is_sts_upgrade''} \<longrightarrow>
        v f = None \<longrightarrow> \<not> conforms HttpRedirect v)"
proof -
  have "optional_fields HttpRedirect =
     [''id'', ''crawl_id'', ''visit_id'', ''old_channel_id'', ''new_channel_id'']"
    by (simp add: optional_fields_def schema_defs)
  moreover note required_fields_HttpRedirect
  moreover have "conforms HttpRedirect
     [''is_temporary'' \<mapsto> JNum a, ''is_permanent'' \<mapsto> JNum b, ''is_internal'' \<mapsto> JNum c,
      ''is_sts_upgrade'' \<mapsto> JNum d, ''time_stamp'' \<mapsto> JStr t]"
    by (simp add: schema_defs)
  moreover have "\<not> conforms HttpRedirect v"
    if "f \<in> {''is_temporary'', ''is_permanent'', ''is_internal'', ''is_sts_upgrade''}"
      and "v f = None"
  proof -
    have "f \<in> set (required_fields HttpRedirect)"
      using that(1) by (auto simp: required_fields_HttpRedirect)
    then show ?thesis
      using that(2) by (rule required_field_absent)
  qed
  ultimately show ?thesis
    by blast
qed

theorem http_redirect_shape_witness:
  "conforms HttpRedirect
     [''is_temporary'' \<mapsto> JNum 0, ''is_permanent'' \<mapsto> JNum 1, ''is_internal'' \<mapsto> JNum 0,
      ''is_sts_upgrade'' \<mapsto> JNum 0, ''time_stamp'' \<mapsto> JStr ''2024-01-01T00:00:00Z'']
   \<and> ''is_internal'' \<in> {''is_temporary'', ''is_permanent'', ''is_internal'', ''is_sts_upgrade''}
   \<and> [''is_temporary'' \<mapsto> JNum 0, ''is_permanent'' \<mapsto> JNum 1, ''is_sts_upgrade'' \<mapsto> JNum 0,
       ''time_stamp'' \<mapsto> JStr ''2024-01-01T00:00:00Z''] ''is_internal'' = None
   \<and> \<not> conforms HttpRedirect
       [''is_temporary'' \<mapsto> JNum 0, ''is_permanent'' \<mapsto> JNum 1, ''is_sts_upgrade'' \<mapsto> JNum 0,
        ''time_stamp'' \<mapsto> JStr ''2024-01-01T00:00:00Z'']"
proof -
  let ?v = "[''is_temporary'' \<mapsto> JNum 0, ''is_permanent'' \<mapsto> JNum 1,
             ''is_sts_upgrade'' \<mapsto> JNum 0, ''time_stamp'' \<mapsto> JStr ''2024-01-01T00:00:00Z'']"
  have m: "''is_internal'' \<in> {''is_temporary'', ''is_permanent'', ''is_internal'', ''is_sts_upgrade''}"
    by simp
  have a: "?v ''is_internal'' = None"
    by simp
  from http_redirect_shape [of 0 1 0 0 "''2024-01-01T00:00:00Z''" "''is_internal''" ?v] m a
  show ?thesis
    by blast
qed

end
